theory Spec2Isabelle
  imports Complex_Main "HOL-Library.Word"
begin

section \<open>Floating-point values\<close>

text \<open>
  A C \<^verbatim>\<open>float\<close> or \<^verbatim>\<open>double\<close> is a finite number, an infinity or NaN. A finite
  value is represented by the real number it denotes (the two signed zeros are
  identified). Every comparison with NaN is false, as IEEE 754 prescribes.
\<close>

datatype fp = Finite real | PInf | NInf | NaN

fun fp_le :: "fp \<Rightarrow> fp \<Rightarrow> bool" where
  "fp_le NaN b = False"
| "fp_le a NaN = False"
| "fp_le NInf b = True"
| "fp_le a PInf = True"
| "fp_le (Finite x) (Finite y) = (x \<le> y)"
| "fp_le PInf b = False"
| "fp_le a NInf = False"

definition fp_ge :: "fp \<Rightarrow> fp \<Rightarrow> bool" where
  "fp_ge a b = fp_le b a"

text \<open>Rounding towards zero to an integer, as \<^verbatim>\<open>fmod\<close> uses it.\<close>

definition trunc :: "real \<Rightarrow> int" where
  "trunc r = (if 0 \<le> r then \<lfloor>r\<rfloor> else \<lceil>r\<rceil>)"

text \<open>
  \<^verbatim>\<open>fmod(x, y)\<close> of the C library: NaN when an argument is NaN, when \<^verbatim>\<open>x\<close> is
  infinite or when \<^verbatim>\<open>y\<close> is zero; \<^verbatim>\<open>x\<close> when \<^verbatim>\<open>y\<close> is infinite; otherwise
  \<^verbatim>\<open>x - n * y\<close> with \<^verbatim>\<open>n\<close> the quotient truncated towards zero. The result
  of \<^verbatim>\<open>fmod\<close> is always representable, so no rounding takes place.
\<close>

fun fmod :: "fp \<Rightarrow> fp \<Rightarrow> fp" where
  "fmod NaN y = NaN"
| "fmod x NaN = NaN"
| "fmod PInf y = NaN"
| "fmod NInf y = NaN"
| "fmod (Finite x) (Finite y) =
     (if y = 0 then NaN else Finite (x - of_int (trunc (x / y)) * y))"
| "fmod (Finite x) PInf = Finite x"
| "fmod (Finite x) NInf = Finite x"

text \<open>
  The conversion of a \<^verbatim>\<open>double\<close> to \<^verbatim>\<open>float\<close> (IEEE 754 binary32, round to
  nearest, ties to even): a finite non-zero value is rounded to a multiple of the
  unit in the last place of its binade (24 significant bits, least exponent -126),
  and becomes an infinity when the rounded magnitude reaches \<open>2 ^ 128\<close>.
\<close>

definition round_half_even :: "real \<Rightarrow> int" where
  "round_half_even y =
     (let f = \<lfloor>y\<rfloor>; r = y - of_int f
      in if r < 1 / 2 then f else if 1 / 2 < r then f + 1
         else if even f then f else f + 1)"

definition binade :: "real \<Rightarrow> int" where
  "binade x = \<lfloor>log 2 \<bar>x\<bar>\<rfloor>"

definition double_to_float :: "fp \<Rightarrow> fp" where
  "double_to_float v =
     (case v of
        Finite x \<Rightarrow>
          (if x = 0 then Finite 0
           else let q = 2 powi (max (binade x) (- 126) - 23);
                    r = of_int (round_half_even (x / q)) * q
                in if 2 ^ 128 \<le> \<bar>r\<bar> then (if 0 < x then PInf else NInf)
                   else Finite r)
      | _ \<Rightarrow> v)"

section \<open>Locations\<close>

record Location =
  latitude :: fp
  longitude :: fp

text \<open>\<^verbatim>\<open>gps::isValidGPSLocation\<close> (gps_impl.cpp).\<close>

definition isValidGPSLocation :: "Location \<Rightarrow> bool" where
  "isValidGPSLocation location =
     (if fp_ge (latitude location) (Finite (- 90)) \<and> fp_le (latitude location) (Finite 90) \<and>
         fp_ge (longitude location) (Finite (- 180)) \<and> fp_le (longitude location) (Finite 180)
      then True else False)"

section \<open>GPS duty cycle (gps_impl.cpp)\<close>

record SleepConfig =
  distanceThreshold :: fp
  sleepInterval :: "32 word"
  gpsPowerEn :: bool

text \<open>The table \<^verbatim>\<open>sleepConfigs\<close>: thresholds in km, intervals in seconds.\<close>

definition sleepConfigs :: "SleepConfig list" where
  "sleepConfigs =
     [\<lparr>distanceThreshold = Finite 10, sleepInterval = 0, gpsPowerEn = True\<rparr>,
      \<lparr>distanceThreshold = Finite 50, sleepInterval = 5 * 60, gpsPowerEn = False\<rparr>,
      \<lparr>distanceThreshold = Finite 100, sleepInterval = 10 * 60, gpsPowerEn = False\<rparr>,
      \<lparr>distanceThreshold = Finite 200, sleepInterval = 15 * 60, gpsPowerEn = False\<rparr>]"

datatype pin_level = LOW | HIGH

datatype Source = SENSOR | BLE

record PointerColor =
  spawnColor :: int
  southColor :: int

text \<open>
  The fields of the shared \<^verbatim>\<open>Context\<close> singleton that the two files read and
  write. \<^verbatim>\<open>isGPSModel\<close> stands for the result of \<^verbatim>\<open>Context::isGPSModel()\<close>.
  The context's header is not among the sources; the colour fields hold the C
  \<^verbatim>\<open>int\<close> the handler assigns to them.
\<close>

record Context =
  detectGPS :: bool
  isGPSFixed :: bool
  currentLocation :: Location
  spawnLocation :: Location
  subscribeSource :: Source
  color :: PointerColor
  isGPSModel :: bool
  hasSensor :: bool

text \<open>
  The state the GPS module works on: the context, the file's static variables
  \<^verbatim>\<open>gpsSleepInterval\<close> and \<^verbatim>\<open>logCounter\<close>, the level of \<^verbatim>\<open>GPS_EN_PIN\<close> (the
  receiver is powered while the pin is LOW), and the one-shot sleep timers that have
  been started and have not fired yet, each with its timeout in microseconds.
\<close>

record gps_state =
  ctx :: Context
  gpsSleepInterval :: "32 word"
  logCounter :: "8 word"
  GPS_EN_PIN :: pin_level
  sleep_timers :: "64 word list"

text \<open>The fields of \<^verbatim>\<open>gps_t\<close> the handler uses other than for logging.\<close>

record gps_t =
  gps_fix :: nat
  gps_latitude :: fp
  gps_longitude :: fp

datatype nmea_event_id = GPS_UPDATE | GPS_UNKNOWN | GPS_OTHER_ID

text \<open>
  The first loop of the handler, over the table entries in the order it visits them
  (last entry first): the threshold of the first entry the distance has reached, and
  the initial value 0 of \<^verbatim>\<open>threshholdDistance\<close> when there is none.
\<close>

fun scan_threshold :: "fp \<Rightarrow> SleepConfig list \<Rightarrow> fp" where
  "scan_threshold distance [] = Finite 0"
| "scan_threshold distance (c # cs) =
     (if fp_ge distance (distanceThreshold c) then distanceThreshold c
      else scan_threshold distance cs)"

definition threshholdDistance :: "fp \<Rightarrow> fp" where
  "threshholdDistance distance = scan_threshold distance (rev sleepConfigs)"

text \<open>\<^verbatim>\<open>float modDistance = fmod(distance, threshholdDistance)\<close>.\<close>

definition modDistance :: "fp \<Rightarrow> fp" where
  "modDistance distance = double_to_float (fmod distance (threshholdDistance distance))"

text \<open>
  What \<^verbatim>\<open>esp_timer_create\<close> returns. \<^verbatim>\<open>ESP_ERROR_CHECK\<close> aborts the firmware on
  every value other than \<^verbatim>\<open>ESP_OK\<close>; the handler then has no resulting state.
\<close>

datatype esp_err_t = ESP_OK | ESP_ERR_NO_MEM | ESP_ERR_INVALID_ARG

text \<open>
  The second loop: the first entry whose threshold the residual does not exceed sets
  \<^verbatim>\<open>gpsSleepInterval\<close> and the pin; with power disabled it also creates and starts
  a one-shot timer for \<^verbatim>\<open>gpsSleepInterval * 1000000\<close> microseconds (a 32-bit
  product, widened to the 64-bit timeout). No entry, no effect. \<open>rc\<close> is what
  \<^verbatim>\<open>esp_timer_create\<close> returns if it is called.
\<close>

fun adjust_sleep :: "fp \<Rightarrow> SleepConfig list \<Rightarrow> esp_err_t \<Rightarrow> gps_state \<Rightarrow> gps_state option" where
  "adjust_sleep m [] rc s = Some s"
| "adjust_sleep m (c # cs) rc s =
     (if fp_le m (distanceThreshold c) then
        (let s1 = s\<lparr>gpsSleepInterval := sleepInterval c\<rparr>
         in if gpsPowerEn c then Some (s1\<lparr>GPS_EN_PIN := LOW\<rparr>)
            else if rc = ESP_OK then
              Some (s1\<lparr>GPS_EN_PIN := HIGH,
                       sleep_timers :=
                         sleep_timers s1 @ [ucast (gpsSleepInterval s1 * 1000000)]\<rparr>)
            else None)
      else adjust_sleep m cs rc s)"

text \<open>
  \<^verbatim>\<open>gps_event_handler\<close>. The argument \<open>distance\<close> is the value that
  \<^verbatim>\<open>utils::complexDistance\<close> returns for the current and the spawn location
  (\<^verbatim>\<open>utils\<close> is not among the sources).
\<close>

definition gps_event_handler ::
    "nmea_event_id \<Rightarrow> gps_t \<Rightarrow> fp \<Rightarrow> esp_err_t \<Rightarrow> gps_state \<Rightarrow> gps_state option" where
  "gps_event_handler event_id gpsParser distance rc s =
     (case event_id of
        GPS_UPDATE \<Rightarrow>
          (let s1 = s\<lparr>logCounter := logCounter s + 1, ctx := (ctx s)\<lparr>detectGPS := True\<rparr>\<rparr>
           in if gps_fix gpsParser = 0 then Some s1
              else
                (let s2 = s1\<lparr>ctx := (ctx s1)
                            \<lparr>isGPSFixed := True,
                             currentLocation :=
                               \<lparr>latitude = gps_latitude gpsParser,
                                longitude = gps_longitude gpsParser\<rparr>,
                             subscribeSource := SENSOR\<rparr>\<rparr>
                 in adjust_sleep (modDistance distance) sleepConfigs rc s2))
      | GPS_UNKNOWN \<Rightarrow> Some s
      | GPS_OTHER_ID \<Rightarrow> Some s)"

text \<open>
  The entry the second loop stops at, as a function of the residual: the first entry
  of the table whose threshold the residual does not exceed, if there is one.
\<close>

definition selected_config :: "fp \<Rightarrow> SleepConfig option" where
  "selected_config m = find (\<lambda>c. fp_le m (distanceThreshold c)) sleepConfigs"

text \<open>The callback of a sleep timer, and the expiry of the \<open>i\<close>-th pending timer.\<close>

definition gpsSleepTimer_callback :: "gps_state \<Rightarrow> gps_state" where
  "gpsSleepTimer_callback s = s\<lparr>GPS_EN_PIN := LOW\<rparr>"

definition sleep_timer_expires :: "nat \<Rightarrow> gps_state \<Rightarrow> gps_state" where
  "sleep_timer_expires i s =
     (if i < length (sleep_timers s)
      then gpsSleepTimer_callback
             (s\<lparr>sleep_timers := take i (sleep_timers s) @ drop (Suc i) (sleep_timers s)\<rparr>)
      else s)"

text \<open>
  The module's state after \<^verbatim>\<open>gps::init\<close> and before the first event: the static
  initialisers, the receiver powered, no sleep timer.
\<close>

definition gps_init :: "Context \<Rightarrow> gps_state" where
  "gps_init c =
     \<lparr>ctx = c, gpsSleepInterval = 60 * 60, logCounter = 0, GPS_EN_PIN = LOW,
      sleep_timers = []\<rparr>"

section \<open>BLE server (bluetooth_impl.cpp)\<close>

text \<open>
  The state the BLE module works on: the context; the values last handed to
  \<^verbatim>\<open>preference::saveSpawnLocation\<close> and \<^verbatim>\<open>preference::savePointerColor\<close>; the
  file's static variables \<^verbatim>\<open>serverEnable\<close>, \<^verbatim>\<open>clientConnected\<close> and
  \<^verbatim>\<open>last_update\<close>; what the NimBLE stack holds for the server (the number of
  connected peers that \<^verbatim>\<open>getConnectedCount\<close> returns, whether it advertises,
  whether host and controller are up, whether the base service exists, the value of
  the Azimuth characteristic and the flags last written into the Info
  characteristic); whether the dispatcher is registered on the event loop; and the
  notifications sent so far.
\<close>

record ble_state =
  bctx :: Context
  saved_spawnLocation :: Location
  saved_pointerColor :: PointerColor
  serverEnable :: bool
  clientConnected :: bool
  last_update :: "32 word"
  connectedCount :: nat
  advertising :: bool
  host_up :: bool
  controller_up :: bool
  base_service :: bool
  azimuth_char :: int
  info_char :: "bool \<times> bool \<times> bool"
  dispatcher_registered :: bool
  notifications :: "int list"

subsection \<open>Session lifecycle\<close>

text \<open>
  \<^verbatim>\<open>ServerCallbacks::onConnect\<close> and \<^verbatim>\<open>onDisconnect\<close>. The flag
  \<^verbatim>\<open>clientConnected\<close> is set on a connection; no code clears it.
\<close>

definition onConnect :: "ble_state \<Rightarrow> ble_state" where
  "onConnect s = s\<lparr>clientConnected := True\<rparr>"

definition onDisconnect :: "ble_state \<Rightarrow> ble_state" where
  "onDisconnect s = s\<lparr>advertising := True\<rparr>"

text \<open>
  \<^verbatim>\<open>ble_server::init\<close>, as far as the state above records it: the stack comes up
  with its services, advertising starts, \<^verbatim>\<open>serverEnable\<close> is set and the
  dispatcher is registered. It ends by arming the one-shot timer whose callback is
  \<open>deinit_timer_callback\<close> below.
\<close>

definition ble_server_init :: "ble_state \<Rightarrow> ble_state" where
  "ble_server_init s =
     s\<lparr>host_up := True, controller_up := True, base_service := True, azimuth_char := 0,
       info_char := (detectGPS (bctx s), isGPSModel (bctx s), hasSensor (bctx s)),
       advertising := True, serverEnable := True, dispatcher_registered := True\<rparr>"

text \<open>
  \<^verbatim>\<open>ble_server::deinit\<close>. \<^verbatim>\<open>NimBLEDevice::deinit(false)\<close> stops advertising and
  takes the host down; it keeps the server object and its services.
\<close>

definition ble_server_deinit :: "ble_state \<Rightarrow> ble_state" where
  "ble_server_deinit s =
     (if \<not> serverEnable s \<or> clientConnected s then s
      else s\<lparr>dispatcher_registered := False, host_up := False, advertising := False,
             controller_up := False, serverEnable := False\<rparr>)"

text \<open>The callback of the timer armed by \<^verbatim>\<open>ble_server::init\<close>.\<close>

definition deinit_timer_callback :: "ble_state \<Rightarrow> ble_state" where
  "deinit_timer_callback s =
     (if connectedCount s = 0 then
        (if isGPSModel (bctx s) \<and> \<not> isValidGPSLocation (spawnLocation (bctx s)) then s
         else ble_server_deinit s)
      else s)"

text \<open>
  What happens between \<^verbatim>\<open>init\<close> and the expiry of the timer: peers connect and
  disconnect. The stack counts the peer and stops advertising before it calls
  \<^verbatim>\<open>onConnect\<close>, and removes the peer before it calls \<^verbatim>\<open>onDisconnect\<close>; it
  accepts a connection only while the host is up, and a disconnection needs a
  connected peer.
\<close>

datatype ble_event = Connect | Disconnect

fun ble_step :: "ble_state \<Rightarrow> ble_event \<Rightarrow> ble_state" where
  "ble_step s Connect =
     (if host_up s
      then onConnect (s\<lparr>connectedCount := Suc (connectedCount s), advertising := False\<rparr>)
      else s)"
| "ble_step s Disconnect =
     (if 0 < connectedCount s
      then onDisconnect (s\<lparr>connectedCount := connectedCount s - 1\<rparr>)
      else s)"

definition ble_run :: "ble_event list \<Rightarrow> ble_state \<Rightarrow> ble_state" where
  "ble_run evs s = foldl ble_step s evs"

text \<open>
  The module's state before \<^verbatim>\<open>ble_server::init\<close>: the static initialisers, no
  stack, context and stored preferences as given.
\<close>

definition ble_boot :: "Context \<Rightarrow> Location \<Rightarrow> PointerColor \<Rightarrow> ble_state" where
  "ble_boot c loc col =
     \<lparr>bctx = c, saved_spawnLocation = loc, saved_pointerColor = col,
      serverEnable = False, clientConnected = False, last_update = 0,
      connectedCount = 0, advertising = False, host_up = False, controller_up = False,
      base_service = False, azimuth_char = 0, info_char = (False, False, False),
      dispatcher_registered = False, notifications = []\<rparr>"

text \<open>
  The state in which the timer armed by \<^verbatim>\<open>init\<close> expires: the module was
  initialised, the peers connected and disconnected as \<open>evs\<close> says, and the
  context is by then \<open>c'\<close> (writes may have changed it).
\<close>

definition at_timeout ::
    "Context \<Rightarrow> Location \<Rightarrow> PointerColor \<Rightarrow> ble_event list \<Rightarrow> Context \<Rightarrow> ble_state" where
  "at_timeout c loc col evs c' =
     (ble_run evs (ble_server_init (ble_boot c loc col)))\<lparr>bctx := c'\<rparr>"

subsection \<open>Characteristic writes\<close>

text \<open>
  \<^verbatim>\<open>std::stof\<close> either returns a \<^verbatim>\<open>float\<close> or throws one of two exceptions. It
  belongs to the C++ library, so the write handler is given it as an argument.
\<close>

datatype stof_error = invalid_argument | out_of_range

text \<open>\<^verbatim>\<open>std::string::find\<close> for one character.\<close>

fun find_char :: "char \<Rightarrow> string \<Rightarrow> nat option" where
  "find_char c [] = None"
| "find_char c (x # xs) =
     (if x = c then Some 0 else map_option Suc (find_char c xs))"

text \<open>The Spawn branch of \<^verbatim>\<open>CharacteristicCallbacks::onWrite\<close>.\<close>

definition onWrite_spawn :: "(string \<Rightarrow> stof_error + fp) \<Rightarrow> string \<Rightarrow> ble_state \<Rightarrow> ble_state" where
  "onWrite_spawn stof val s =
     (case find_char (CHR '','') val of
        None \<Rightarrow> s
      | Some commaIndex \<Rightarrow>
          (let latitudeStr = take commaIndex val;
               longitudeStr = drop (commaIndex + 1) val
           in case stof longitudeStr of
                Inl e \<Rightarrow> s
              | Inr lon \<Rightarrow>
                  (case stof latitudeStr of
                     Inl e \<Rightarrow> s
                   | Inr lat \<Rightarrow>
                       (let location = \<lparr>latitude = lat, longitude = lon\<rparr>
                        in s\<lparr>saved_spawnLocation := location,
                             bctx := (bctx s)\<lparr>spawnLocation := location\<rparr>\<rparr>))))"

text \<open>
  \<^verbatim>\<open>strtol(str, &endptr, 16)\<close> on a C string (the characters before the first
  NUL): white space is skipped, then an optional sign, then an optional \<^verbatim>\<open>0x\<close> or
  \<^verbatim>\<open>0X\<close> that a hexadecimal digit follows, then the longest run of hexadecimal
  digits. The result is the value, clamped to the range of a 32-bit \<^verbatim>\<open>long\<close>,
  paired with \<^verbatim>\<open>endptr - str\<close>, which is 0 when there is no digit.
\<close>

definition isspace :: "char \<Rightarrow> bool" where
  "isspace c = (c \<in> {CHR '' '', CHR 0x09, CHR 0x0A, CHR 0x0B, CHR 0x0C, CHR 0x0D})"

definition hex_digit :: "char \<Rightarrow> nat option" where
  "hex_digit c =
     (let n = of_char c :: nat
      in if 48 \<le> n \<and> n \<le> 57 then Some (n - 48)
         else if 65 \<le> n \<and> n \<le> 70 then Some (n - 55)
         else if 97 \<le> n \<and> n \<le> 102 then Some (n - 87)
         else None)"

definition is_hex :: "char \<Rightarrow> bool" where
  "is_hex c = (hex_digit c \<noteq> None)"

fun hex_prefix :: "string \<Rightarrow> nat" where
  "hex_prefix (z # x # d # cs) =
     (if z = CHR ''0'' \<and> (x = CHR ''x'' \<or> x = CHR ''X'') \<and> is_hex d then 2 else 0)"
| "hex_prefix cs = 0"

definition strtol16 :: "string \<Rightarrow> int \<times> nat" where
  "strtol16 str =
     (let cstr = takeWhile (\<lambda>c. c \<noteq> CHR 0x00) str;
          ws = length (takeWhile isspace cstr);
          s1 = drop ws cstr;
          neg = (s1 \<noteq> [] \<and> hd s1 = CHR ''-'');
          sgn = (if s1 \<noteq> [] \<and> (hd s1 = CHR ''-'' \<or> hd s1 = CHR ''+'') then 1 else 0);
          s2 = drop sgn s1;
          pre = hex_prefix s2;
          ds = takeWhile is_hex (drop pre s2);
          acc = foldl (\<lambda>a c. 16 * a + (case hex_digit c of Some n \<Rightarrow> int n | None \<Rightarrow> 0)) 0 ds;
          v = (if neg then max (- (2 ^ 31)) (- acc) else min (2 ^ 31 - 1) acc)
      in if ds = [] then (0, 0) else (v, ws + sgn + pre + length ds))"

text \<open>
  The Color branch of \<^verbatim>\<open>CharacteristicCallbacks::onWrite\<close>. Its argument
  \<open>colors\<close> is the vector that \<^verbatim>\<open>utils::split(value, ",")\<close> returns for the
  payload (\<^verbatim>\<open>utils\<close> is not among the sources).
\<close>

definition onWrite_color :: "string list \<Rightarrow> ble_state \<Rightarrow> ble_state" where
  "onWrite_color colors s =
     (let color0 = color (bctx s)
      in if length colors = 1 then
           (let (south, endp) = strtol16 (colors ! 0);
                color1 = (if endp = 1 then color0\<lparr>southColor := south\<rparr> else color0)
            in s\<lparr>saved_pointerColor := color1\<rparr>)
         else if 2 \<le> length colors then
           (let (south, endp0) = strtol16 (colors ! 0);
                color1 = (if endp0 = 0 then color0 else color0\<lparr>southColor := south\<rparr>);
                (spawn, endp1) = strtol16 (colors ! 1);
                color2 = (if endp1 = 0 then color1 else color1\<lparr>spawnColor := spawn\<rparr>)
            in s\<lparr>saved_pointerColor := color2, bctx := (bctx s)\<lparr>color := color2\<rparr>\<rparr>)
         else s)"

subsection \<open>Event dispatcher\<close>

text \<open>
  The event types the file names, and one constructor for every other enumerator of
  \<^verbatim>\<open>Event::Type\<close> (its header is not among the sources).
\<close>

datatype Event_Type = AZIMUTH | FACTORY_RESET | SENSOR_CALIBRATE | OTHER_TYPE

record Event_Body =
  ev_type :: Event_Type
  ev_source :: Source
  azimuth_angle :: int

text \<open>
  \<^verbatim>\<open>ble_azimuth_dispatcher\<close>. It calls \<^verbatim>\<open>millis()\<close> twice, once for the test
  and once for the new \<^verbatim>\<open>last_update\<close>: \<open>now\<close> and \<open>now'\<close> are the two
  readings of the 32-bit millisecond counter, and the subtraction wraps around as
  unsigned arithmetic does. \<open>az\<close> is what \<^verbatim>\<open>sensor::getAzimuth()\<close> returns.
\<close>

definition ble_azimuth_dispatcher ::
    "32 word \<Rightarrow> 32 word \<Rightarrow> int \<Rightarrow> Event_Body \<Rightarrow> ble_state \<Rightarrow> ble_state" where
  "ble_azimuth_dispatcher now now' az evt s =
     (if now - last_update s < 1000 then s
      else
        (let s1 = s\<lparr>last_update := now'\<rparr>
         in case ev_type evt of
              AZIMUTH \<Rightarrow>
                (if 0 < connectedCount s1 then
                   (if base_service s1 then
                      s1\<lparr>azimuth_char := az, notifications := notifications s1 @ [az],
                         info_char :=
                           (detectGPS (bctx s1), isGPSModel (bctx s1), hasSensor (bctx s1))\<rparr>
                    else s1)
                 else s1)
            | FACTORY_RESET \<Rightarrow> s1
            | SENSOR_CALIBRATE \<Rightarrow> s1
            | OTHER_TYPE \<Rightarrow> s1))"

text \<open>
  Time in milliseconds since boot is a natural number; \<^verbatim>\<open>millis()\<close> returns it
  modulo \<open>2 ^ 32\<close>. A delivery is one call of the dispatcher: the time of its first
  reading of the counter, the time of its second reading, the sensor's azimuth and
  the event.
\<close>

definition millis :: "nat \<Rightarrow> 32 word" where
  "millis t = of_nat t"

record delivery =
  d_check :: nat
  d_store :: nat
  d_azimuth :: int
  d_event :: Event_Body

definition deliver :: "delivery \<Rightarrow> ble_state \<Rightarrow> ble_state" where
  "deliver d s =
     ble_azimuth_dispatcher (millis (d_check d)) (millis (d_store d)) (d_azimuth d) (d_event d) s"

definition deliver_all :: "delivery list \<Rightarrow> ble_state \<Rightarrow> ble_state" where
  "deliver_all ds s = foldl (\<lambda>s d. deliver d s) s ds"

text \<open>The dispatcher accepts a delivery when it does not return at its first test.\<close>

definition accepted :: "delivery \<Rightarrow> ble_state \<Rightarrow> bool" where
  "accepted d s = (\<not> millis (d_check d) - last_update s < 1000)"

text \<open>A delivery notifies when it extends the list of notifications sent.\<close>

definition notifies :: "delivery \<Rightarrow> ble_state \<Rightarrow> bool" where
  "notifies d s = (notifications (deliver d s) \<noteq> notifications s)"

section \<open>Concrete values for the examples\<close>

definition sample_context :: Context where
  "sample_context =
     \<lparr>detectGPS = False, isGPSFixed = False,
      currentLocation = \<lparr>latitude = Finite 0, longitude = Finite 0\<rparr>,
      spawnLocation = \<lparr>latitude = Finite 31, longitude = Finite 121\<rparr>,
      subscribeSource = SENSOR, color = \<lparr>spawnColor = 0x00FF00, southColor = 0xFF0000\<rparr>,
      isGPSModel = True, hasSensor = True\<rparr>"

text \<open>The BLE module right after \<^verbatim>\<open>ble_server::init\<close>, on the sample context.\<close>

definition sample_server :: ble_state where
  "sample_server =
     ble_server_init
       (ble_boot sample_context (spawnLocation sample_context) (color sample_context))"

text \<open>
  A stand-in for \<^verbatim>\<open>std::stof\<close> on the strings of the examples: the two decimal
  strings give the nearest \<^verbatim>\<open>float\<close>, every other string is refused.
\<close>

definition sample_stof :: "string \<Rightarrow> stof_error + fp" where
  "sample_stof t =
     (if t = ''12.345'' then Inr (double_to_float (Finite 12.345))
      else if t = ''67.890'' then Inr (double_to_float (Finite 67.890))
      else Inl invalid_argument)"

text \<open>Deliveries of an azimuth event and of a calibration request at a given time.\<close>

definition azimuth_at :: "nat \<Rightarrow> int \<Rightarrow> delivery" where
  "azimuth_at t a =
     \<lparr>d_check = t, d_store = t, d_azimuth = a,
      d_event = \<lparr>ev_type = AZIMUTH, ev_source = SENSOR, azimuth_angle = a\<rparr>\<rparr>"

definition calibrate_at :: "nat \<Rightarrow> delivery" where
  "calibrate_at t =
     \<lparr>d_check = t, d_store = t, d_azimuth = 0,
      d_event = \<lparr>ev_type = SENSOR_CALIBRATE, ev_source = BLE, azimuth_angle = 0\<rparr>\<rparr>"

text \<open>
  A valid fix. Its coordinates only end up in the context: the distance is an
  argument of the handler.
\<close>

definition sample_fix :: gps_t where
  "sample_fix = \<lparr>gps_fix = 1, gps_latitude = Finite 31, gps_longitude = Finite 121\<rparr>"

text \<open>
  A valid fix at the given distance from the spawn location, with timer creation
  succeeding.
\<close>

definition fix_at :: "real \<Rightarrow> gps_state \<Rightarrow> gps_state option" where
  "fix_at d s = gps_event_handler GPS_UPDATE sample_fix (Finite d) ESP_OK s"

section \<open>Properties of the location predicate\<close>

lemma fp_le_Finite_right: "fp_le a (Finite y) = (a = NInf \<or> (\<exists>x. a = Finite x \<and> x \<le> y))"
  by (cases a) simp_all

lemma fp_le_Finite_left: "fp_le (Finite x) b = (b = PInf \<or> (\<exists>y. b = Finite y \<and> x \<le> y))"
  by (cases b) simp_all

text \<open>
  C6 (as amended). \<^verbatim>\<open>gps::isValidGPSLocation\<close> returns true exactly for the
  locations whose latitude is a number in [-90, 90] and whose longitude is a number
  in [-180, 180]. The all-zero location is not excluded.
\<close>

theorem isValidGPSLocation_iff_in_range:
  "isValidGPSLocation loc \<longleftrightarrow>
     (\<exists>la lo. latitude loc = Finite la \<and> longitude loc = Finite lo \<and>
        - 90 \<le> la \<and> la \<le> 90 \<and> - 180 \<le> lo \<and> lo \<le> 180)"
  by (auto simp: isValidGPSLocation_def fp_ge_def fp_le_Finite_right fp_le_Finite_left)

text \<open>
  C6 (witness). A location in range is accepted; a latitude of 91 and a NaN
  latitude are rejected.
\<close>

theorem isValidGPSLocation_iff_in_range_witness:
  "isValidGPSLocation \<lparr>latitude = Finite 12, longitude = Finite (- 170)\<rparr> \<and>
   \<not> isValidGPSLocation \<lparr>latitude = Finite 91, longitude = Finite 0\<rparr> \<and>
   \<not> isValidGPSLocation \<lparr>latitude = NaN, longitude = Finite 0\<rparr>"
  using isValidGPSLocation_iff_in_range [of "\<lparr>latitude = Finite 12, longitude = Finite (- 170)\<rparr>"]
    isValidGPSLocation_iff_in_range [of "\<lparr>latitude = Finite 91, longitude = Finite 0\<rparr>"]
    isValidGPSLocation_iff_in_range [of "\<lparr>latitude = NaN, longitude = Finite 0\<rparr>"]
  by simp

text \<open>
  C6 (counterexample). The claim excludes the all-zero location; the predicate
  accepts it.
\<close>

theorem isValidGPSLocation_accepts_all_zero:
  "isValidGPSLocation \<lparr>latitude = Finite 0, longitude = Finite 0\<rparr> = True"
  by (simp add: isValidGPSLocation_def fp_ge_def)

section \<open>Properties of the GPS fix handler\<close>

subsection \<open>Evaluation of the conversion and of the residual\<close>

lemma binade_eq:
  assumes lo: "2 powi k \<le> \<bar>x\<bar>" and hi: "\<bar>x\<bar> < 2 powi (k + 1)"
  shows "binade x = k"
proof -
  have "(0::real) < 2 powi k" by simp
  with lo have "0 < \<bar>x\<bar>" by linarith
  moreover have "(2::real) powr real_of_int k = 2 powi k"
    by (simp add: powr_real_of_int')
  moreover have "(2::real) powr (real_of_int k + 1) = 2 powi (k + 1)"
    using powr_real_of_int' [of 2 "k + 1"] by simp
  ultimately show ?thesis
    unfolding binade_def using lo hi
    by (subst floor_log_eq_powr_iff) simp_all
qed

lemma double_to_float_5: "double_to_float (Finite 5) = Finite 5"
proof -
  have "binade 5 = 2" by (rule binade_eq) simp_all
  then show ?thesis by (simp add: double_to_float_def round_half_even_def Let_def)
qed

lemma double_to_float_20: "double_to_float (Finite 20) = Finite 20"
proof -
  have "binade 20 = 4" by (rule binade_eq) simp_all
  then show ?thesis by (simp add: double_to_float_def round_half_even_def Let_def)
qed

text \<open>
  The conversion does not carry a value across an integer below \<open>2 ^ 24\<close>: such an
  integer is a \<^verbatim>\<open>float\<close>, and rounding to nearest is monotone.
\<close>

lemma round_half_even_le: "y \<le> of_int M \<Longrightarrow> round_half_even y \<le> M"
proof -
  assume h: "y \<le> of_int M"
  show ?thesis
  proof (cases "y = of_int M")
    case True
    then show ?thesis by (simp add: round_half_even_def)
  next
    case False
    with h have "y < of_int M" by simp
    then have "\<lfloor>y\<rfloor> < M" by (simp add: floor_less_iff)
    then show ?thesis by (simp add: round_half_even_def Let_def)
  qed
qed

lemma round_half_even_nonneg: "0 \<le> y \<Longrightarrow> 0 \<le> round_half_even y"
  by (simp add: round_half_even_def Let_def)

lemma binade_le: "0 < x \<Longrightarrow> x < 2 ^ 24 \<Longrightarrow> binade x \<le> 23"
proof -
  assume p: "0 < x" and h: "x < 2 ^ 24"
  have "x < 2 powr 24" using h by simp
  then have "log 2 x < 24" using p by (simp add: log_less_iff)
  then have "\<lfloor>log 2 x\<rfloor> < 24" by (simp add: floor_less_iff)
  with p show ?thesis by (simp add: binade_def)
qed

lemma double_to_float_bounds:
  assumes "0 \<le> x" and "x \<le> of_int N" and "N < 2 ^ 24"
  shows "\<exists>r. double_to_float (Finite x) = Finite r \<and> 0 \<le> r \<and> r \<le> of_int N"
proof (cases "x = 0")
  case True
  with assms show ?thesis by (simp add: double_to_float_def)
next
  case False
  with assms have p: "0 < x" by simp
  have xl: "x < 2 ^ 24"
  proof -
    have "(of_int N :: real) < of_int (2 ^ 24)" using assms(3) by (simp only: of_int_less_iff)
    with assms(2) show ?thesis by simp
  qed
  define e where "e = max (binade x) (- 126) - 23"
  define q :: real where "q = 2 powi e"
  have e0: "e \<le> 0" using binade_le [OF p xl] by (simp add: e_def)
  have qpos: "0 < q" by (simp add: q_def)
  define k where "k = nat (- e)"
  have qinv: "1 / q = 2 ^ k"
    using e0 by (simp add: q_def k_def power_int_def field_simps)
  define M where "M = N * 2 ^ k"
  have "x / q = x * (1 / q)" by simp
  also have "\<dots> = x * 2 ^ k" by (simp only: qinv)
  also have "\<dots> \<le> of_int N * 2 ^ k" using assms(2) by (simp add: mult_right_mono)
  also have "\<dots> = of_int M" by (simp add: M_def)
  finally have yM: "x / q \<le> of_int M" .
  have Mq: "of_int M * q = of_int N"
    using qinv qpos by (simp add: M_def field_simps)
  define n where "n = round_half_even (x / q)"
  have n0: "0 \<le> n" unfolding n_def using p qpos by (intro round_half_even_nonneg) simp
  have nM: "n \<le> M" unfolding n_def using yM by (rule round_half_even_le)
  define r :: real where "r = of_int n * q"
  have r0: "0 \<le> r" using n0 qpos by (simp add: r_def)
  have "r \<le> of_int M * q" unfolding r_def using nM qpos by (simp add: mult_right_mono)
  then have rN: "r \<le> of_int N" by (simp add: Mq)
  have "(of_int N :: real) < of_int (2 ^ 24)" using assms(3) by (simp only: of_int_less_iff)
  then have "r < 2 ^ 128" using rN by simp
  then have "\<not> 2 ^ 128 \<le> \<bar>r\<bar>" using r0 by simp
  then have "double_to_float (Finite x) = Finite r"
    using False by (simp add: double_to_float_def Let_def e_def q_def r_def n_def)
  with r0 rN show ?thesis by blast
qed


lemma threshholdDistance_below_first:
  "d < 10 \<Longrightarrow> threshholdDistance (Finite d) = Finite 0"
  by (simp add: threshholdDistance_def sleepConfigs_def fp_ge_def)

lemma modDistance_below_first: "d < 10 \<Longrightarrow> modDistance (Finite d) = NaN"
  by (simp add: modDistance_def threshholdDistance_below_first double_to_float_def)

lemma modDistance_70: "modDistance (Finite 70) = Finite 20"
  by (simp add: modDistance_def threshholdDistance_def sleepConfigs_def fp_ge_def trunc_def
      double_to_float_20)

lemma modDistance_55: "modDistance (Finite 55) = Finite 5"
  by (simp add: modDistance_def threshholdDistance_def sleepConfigs_def fp_ge_def trunc_def
      double_to_float_5)

lemma selected_config_20: "selected_config (Finite 20) = Some (sleepConfigs ! 1)"
  by (simp add: selected_config_def sleepConfigs_def)

lemma selected_config_5: "selected_config (Finite 5) = Some (sleepConfigs ! 0)"
  by (simp add: selected_config_def sleepConfigs_def)

lemma selected_config_NaN: "selected_config NaN = None"
  by (simp add: selected_config_def sleepConfigs_def)

subsection \<open>The two loops\<close>

lemma adjust_sleep_find:
  "adjust_sleep m cfgs rc s =
     (case find (\<lambda>c. fp_le m (distanceThreshold c)) cfgs of
        None \<Rightarrow> Some s
      | Some c \<Rightarrow>
          (if gpsPowerEn c
           then Some (s\<lparr>gpsSleepInterval := sleepInterval c, GPS_EN_PIN := LOW\<rparr>)
           else if rc = ESP_OK
             then Some (s\<lparr>gpsSleepInterval := sleepInterval c, GPS_EN_PIN := HIGH,
                    sleep_timers := sleep_timers s @ [ucast (sleepInterval c * 1000000)]\<rparr>)
             else None))"
  by (induction cfgs) (simp_all add: Let_def)

lemma adjust_sleep_NaN: "adjust_sleep NaN cfgs rc s = Some s"
  by (induction cfgs) simp_all

lemma gps_event_handler_fix:
  "gps_fix g \<noteq> 0 \<Longrightarrow>
   gps_event_handler GPS_UPDATE g d rc s =
     adjust_sleep (modDistance d) sleepConfigs rc
       (s\<lparr>logCounter := logCounter s + 1,
          ctx := (ctx s)\<lparr>detectGPS := True, isGPSFixed := True,
                  currentLocation := \<lparr>latitude = gps_latitude g, longitude = gps_longitude g\<rparr>,
                  subscribeSource := SENSOR\<rparr>\<rparr>)"
  by (simp add: gps_event_handler_def Let_def)

lemma gps_event_handler_below_first:
  "gps_fix g \<noteq> 0 \<Longrightarrow> d < 10 \<Longrightarrow>
   gps_event_handler GPS_UPDATE g (Finite d) rc s =
     Some (s\<lparr>logCounter := logCounter s + 1,
       ctx := (ctx s)\<lparr>detectGPS := True, isGPSFixed := True,
               currentLocation := \<lparr>latitude = gps_latitude g, longitude = gps_longitude g\<rparr>,
               subscribeSource := SENSOR\<rparr>\<rparr>)"
  by (simp add: gps_event_handler_fix modDistance_below_first adjust_sleep_NaN)

lemma sample_fix_valid: "gps_fix sample_fix \<noteq> 0"
  by (simp add: sample_fix_def)

lemma fix_at_below_first:
  "d < 10 \<Longrightarrow>
   fix_at d s =
     Some (s\<lparr>logCounter := logCounter s + 1,
       ctx := (ctx s)\<lparr>detectGPS := True, isGPSFixed := True,
               currentLocation := \<lparr>latitude = Finite 31, longitude = Finite 121\<rparr>,
               subscribeSource := SENSOR\<rparr>\<rparr>)"
  by (simp add: fix_at_def gps_event_handler_below_first sample_fix_valid)
    (simp add: sample_fix_def)

lemma fix_at_70:
  "fix_at 70 s =
     Some (s\<lparr>logCounter := logCounter s + 1,
        ctx := (ctx s)\<lparr>detectGPS := True, isGPSFixed := True,
                currentLocation := \<lparr>latitude = Finite 31, longitude = Finite 121\<rparr>,
                subscribeSource := SENSOR\<rparr>,
        gpsSleepInterval := 300, GPS_EN_PIN := HIGH,
        sleep_timers := sleep_timers s @ [300000000]\<rparr>)"
  by (simp add: fix_at_def gps_event_handler_fix sample_fix_valid adjust_sleep_find
      modDistance_70 sleepConfigs_def)
    (simp add: sample_fix_def)

lemma fix_at_55:
  "fix_at 55 s =
     Some (s\<lparr>logCounter := logCounter s + 1,
        ctx := (ctx s)\<lparr>detectGPS := True, isGPSFixed := True,
                currentLocation := \<lparr>latitude = Finite 31, longitude = Finite 121\<rparr>,
                subscribeSource := SENSOR\<rparr>,
        gpsSleepInterval := 0, GPS_EN_PIN := LOW\<rparr>)"
  by (simp add: fix_at_def gps_event_handler_fix sample_fix_valid adjust_sleep_find
      modDistance_55 sleepConfigs_def)
    (simp add: sample_fix_def)

subsection \<open>Distances below the first threshold\<close>

text \<open>
  C1 (evaluation at the failing input). At a distance of 5 km no entry of the table
  has been reached, so the band threshold keeps its initial value 0 instead of the
  first threshold 10, and the residual \<^verbatim>\<open>fmod(5, 0)\<close> is NaN.
\<close>

theorem band_threshold_at_5km:
  "threshholdDistance (Finite 5) = Finite 0 \<and>
   threshholdDistance (Finite 5) \<noteq> distanceThreshold (hd sleepConfigs) \<and>
   fmod (Finite 5) (threshholdDistance (Finite 5)) = NaN \<and>
   modDistance (Finite 5) = NaN"
  by (simp add: threshholdDistance_below_first modDistance_below_first sleepConfigs_def)

text \<open>
  C2 (evaluation at the failing input). A valid fix at 70 km switches the receiver
  off. A valid fix at 5 km handled in that state selects no entry: the pin stays
  HIGH (receiver off).
\<close>

theorem fix_at_5km_leaves_receiver_off:
  "map_option GPS_EN_PIN (fix_at 70 (gps_init sample_context)) = Some HIGH \<and>
   selected_config (modDistance (Finite 5)) = None \<and>
   map_option GPS_EN_PIN (Option.bind (fix_at 70 (gps_init sample_context)) (fix_at 5))
     = Some HIGH"
  by (simp add: fix_at_70 fix_at_below_first modDistance_below_first selected_config_NaN)

text \<open>
  C3 (evaluation at the failing input). After the first valid fix at 5 km the sleep
  interval is still its initial 3600 seconds, which is not an interval of the table.
\<close>

theorem first_fix_at_5km_keeps_default_interval:
  "map_option gpsSleepInterval (fix_at 5 (gps_init sample_context)) = Some 3600 \<and>
   3600 \<notin> set (map sleepInterval sleepConfigs)"
  by (simp add: fix_at_below_first gps_init_def sleepConfigs_def)

subsection \<open>Distances from the first threshold on\<close>

text \<open>
  From 10 km on the first loop finds a threshold, the residual is a number below
  it, and the second loop finds an entry: the interval the handler stores is one of
  the table's. Between 10 km and 50 km the entry is the first one: the receiver is
  switched on and no timer is started.
\<close>

lemma fmod_residual:
  assumes "0 \<le> x" and "0 < y"
  shows "\<exists>m. fmod (Finite x) (Finite y) = Finite m \<and> 0 \<le> m \<and> m < y"
proof -
  have q: "0 \<le> x / y" using assms by simp
  define n where "n = \<lfloor>x / y\<rfloor>"
  have lo: "of_int n \<le> x / y" and hi: "x / y < of_int n + 1"
    unfolding n_def by linarith+
  from lo assms(2) have a: "of_int n * y \<le> x" by (simp add: pos_le_divide_eq)
  from hi assms(2) have b: "x < (of_int n + 1) * y" by (simp add: pos_divide_less_eq)
  have "fmod (Finite x) (Finite y) = Finite (x - of_int n * y)"
    using assms q by (simp add: trunc_def n_def)
  moreover have "0 \<le> x - of_int n * y" using a by simp
  moreover have "x - of_int n * y < y" using b by (simp add: algebra_simps)
  ultimately show ?thesis by blast
qed

lemma threshholdDistance_cases:
  "10 \<le> d \<Longrightarrow> threshholdDistance (Finite d) =
     (if 200 \<le> d then Finite 200 else if 100 \<le> d then Finite 100
      else if 50 \<le> d then Finite 50 else Finite 10)"
  by (simp add: threshholdDistance_def sleepConfigs_def fp_ge_def)

lemma modDistance_at_least_10:
  assumes "10 \<le> d"
  shows "\<exists>r. modDistance (Finite d) = Finite r \<and> 0 \<le> r \<and> r \<le> 200 \<and> (d < 50 \<longrightarrow> r \<le> 10)"
proof -
  obtain T :: int where T: "threshholdDistance (Finite d) = Finite (of_int T)"
    and Tpos: "0 < T" and T200: "T \<le> 200" and T10: "d < 50 \<longrightarrow> T = 10"
  proof -
    have "threshholdDistance (Finite d) = Finite (of_int
        (if 200 \<le> d then 200 else if 100 \<le> d then 100 else if 50 \<le> d then 50 else 10))"
      using assms by (simp add: threshholdDistance_cases)
    then show ?thesis by (rule that) auto
  qed
  from assms have d0: "0 \<le> d" by simp
  from fmod_residual [OF d0, of "of_int T"] Tpos
  obtain m where m: "fmod (Finite d) (Finite (of_int T)) = Finite m" and m0: "0 \<le> m"
    and mT: "m < of_int T" by auto
  from mT have mT': "m \<le> of_int T" by simp
  have "T < 2 ^ 24" using T200 by simp
  from double_to_float_bounds [OF m0 mT' this]
  obtain r where r: "double_to_float (Finite m) = Finite r" and r0: "0 \<le> r"
    and rT: "r \<le> of_int T" by blast
  have "modDistance (Finite d) = Finite r" by (simp only: modDistance_def T m r)
  moreover have "r \<le> 200"
  proof -
    have "(of_int T :: real) \<le> of_int 200" using T200 by (simp only: of_int_le_iff)
    with rT show ?thesis by simp
  qed
  moreover have "d < 50 \<longrightarrow> r \<le> 10" using T10 rT by auto
  ultimately show ?thesis using r0 by blast
qed

lemma selected_config_upto_200:
  "r \<le> 200 \<Longrightarrow> \<exists>c. selected_config (Finite r) = Some c \<and> c \<in> set sleepConfigs"
  by (simp add: selected_config_def sleepConfigs_def)

lemma selected_config_upto_10:
  "r \<le> 10 \<Longrightarrow> selected_config (Finite r) = Some (sleepConfigs ! 0)"
  by (simp add: selected_config_def sleepConfigs_def)

lemma gps_fix_from_10km_interval_in_table:
  assumes "gps_fix g \<noteq> 0" and "10 \<le> d"
  shows "\<exists>s'. gps_event_handler GPS_UPDATE g (Finite d) ESP_OK s = Some s' \<and>
           gpsSleepInterval s' \<in> set (map sleepInterval sleepConfigs)"
proof -
  from modDistance_at_least_10 [OF assms(2)]
  obtain r where r: "modDistance (Finite d) = Finite r" and "r \<le> 200" by blast
  from selected_config_upto_200 [OF this(2)]
  obtain c where c: "selected_config (Finite r) = Some c" and cin: "c \<in> set sleepConfigs"
    by blast
  from c have f: "find (\<lambda>c. fp_le (Finite r) (distanceThreshold c)) sleepConfigs = Some c"
    by (simp add: selected_config_def)
  show ?thesis
    using cin by (cases "gpsPowerEn c")
      (auto simp: gps_event_handler_fix [OF assms(1)] adjust_sleep_find r f)
qed

lemma gps_fix_first_band_powers_on:
  assumes "gps_fix g \<noteq> 0" and "10 \<le> d" and "d < 50"
  shows "\<exists>s'. gps_event_handler GPS_UPDATE g (Finite d) rc s = Some s' \<and>
           gpsSleepInterval s' = 0 \<and> GPS_EN_PIN s' = LOW \<and> sleep_timers s' = sleep_timers s"
proof -
  from modDistance_at_least_10 [OF assms(2)] assms(3)
  obtain r where r: "modDistance (Finite d) = Finite r" and "r \<le> 10" by blast
  from selected_config_upto_10 [OF this(2)]
  have f: "find (\<lambda>c. fp_le (Finite r) (distanceThreshold c)) sleepConfigs = Some (sleepConfigs ! 0)"
    by (simp add: selected_config_def)
  have p: "gpsPowerEn (sleepConfigs ! 0)" "sleepInterval (sleepConfigs ! 0) = 0"
    by (simp_all add: sleepConfigs_def)
  show ?thesis
    by (simp add: gps_event_handler_fix [OF assms(1)] adjust_sleep_find r f p)
qed

subsection \<open>Applying the selected entry\<close>

text \<open>
  C7 (as amended). On a valid fix for which the second loop selects an entry: if the
  entry has power enabled, the handler stores the entry's interval, drives the pin
  LOW (receiver on) and leaves every pending sleep timer pending; if power is
  disabled and the timer can be created, it stores the interval, drives the pin HIGH
  (receiver off) and starts one more one-shot timer for the interval, in
  microseconds; if the timer cannot be created the firmware aborts. The expiry of a
  pending sleep timer, in whatever state, drives the pin LOW and changes neither the
  interval nor the context: it re-evaluates nothing.
\<close>

theorem gps_fix_applies_selected_config:
  "gps_fix g \<noteq> 0 \<Longrightarrow> selected_config (modDistance d) = Some c \<Longrightarrow>
   (gpsPowerEn c \<longrightarrow>
      (\<exists>s'. gps_event_handler GPS_UPDATE g d rc s = Some s' \<and>
         gpsSleepInterval s' = sleepInterval c \<and> GPS_EN_PIN s' = LOW \<and>
         sleep_timers s' = sleep_timers s)) \<and>
   (\<not> gpsPowerEn c \<longrightarrow>
      (\<exists>s'. gps_event_handler GPS_UPDATE g d ESP_OK s = Some s' \<and>
         gpsSleepInterval s' = sleepInterval c \<and> GPS_EN_PIN s' = HIGH \<and>
         sleep_timers s' = sleep_timers s @ [ucast (sleepInterval c * 1000000)])) \<and>
   (\<not> gpsPowerEn c \<and> rc \<noteq> ESP_OK \<longrightarrow> gps_event_handler GPS_UPDATE g d rc s = None) \<and>
   (\<forall>t i. i < length (sleep_timers t) \<longrightarrow>
      GPS_EN_PIN (sleep_timer_expires i t) = LOW \<and>
      gpsSleepInterval (sleep_timer_expires i t) = gpsSleepInterval t \<and>
      ctx (sleep_timer_expires i t) = ctx t \<and>
      sleep_timers (sleep_timer_expires i t) =
        take i (sleep_timers t) @ drop (Suc i) (sleep_timers t))"
  by (simp add: gps_event_handler_fix adjust_sleep_find selected_config_def
      sleep_timer_expires_def gpsSleepTimer_callback_def)

text \<open>
  C7 (witness). A fix at 70 km selects the second entry (power disabled): receiver
  off, one timer of 300 s. A fix at 55 km selects the first entry (power enabled):
  receiver on. The expiry of the timer of 300 s switches the receiver on.
\<close>

theorem gps_fix_applies_selected_config_witness:
  "map_option sleep_timers (fix_at 70 (gps_init sample_context)) = Some [300000000] \<and>
   map_option GPS_EN_PIN (fix_at 70 (gps_init sample_context)) = Some HIGH \<and>
   map_option GPS_EN_PIN (fix_at 55 (gps_init sample_context)) = Some LOW \<and>
   map_option (GPS_EN_PIN \<circ> sleep_timer_expires 0) (fix_at 70 (gps_init sample_context))
     = Some LOW"
proof -
  have v: "gps_fix sample_fix \<noteq> 0" by (rule sample_fix_valid)
  have s70: "selected_config (modDistance (Finite 70)) = Some (sleepConfigs ! 1)"
    by (simp add: modDistance_70 selected_config_20)
  have s55: "selected_config (modDistance (Finite 55)) = Some (sleepConfigs ! 0)"
    by (simp add: modDistance_55 selected_config_5)
  have p1: "\<not> gpsPowerEn (sleepConfigs ! 1)" and p0: "gpsPowerEn (sleepConfigs ! 0)"
    and i1: "sleepInterval (sleepConfigs ! 1) = 300"
    by (simp_all add: sleepConfigs_def)
  from gps_fix_applies_selected_config [OF v s70, of ESP_OK "gps_init sample_context"] p1 i1
  obtain s' where a: "fix_at 70 (gps_init sample_context) = Some s'"
    and b: "GPS_EN_PIN s' = HIGH" and c: "sleep_timers s' = [300000000]"
    and e: "GPS_EN_PIN (sleep_timer_expires 0 s') = LOW"
    by (auto simp: fix_at_def gps_init_def)
  from gps_fix_applies_selected_config [OF v s55, of ESP_OK "gps_init sample_context"] p0
  obtain s'' where a': "fix_at 55 (gps_init sample_context) = Some s''"
    and b': "GPS_EN_PIN s'' = LOW"
    by (auto simp: fix_at_def)
  from a b c e a' b' show ?thesis by simp
qed

text \<open>
  C7 (counterexample). A fix at 70 km starts a sleep timer of 300 s. The next fix at
  55 km selects the first entry, which has power enabled: the pin goes LOW, and the
  timer of 300 s is still pending.
\<close>

theorem pending_sleep_timer_survives_power_on:
  "selected_config (modDistance (Finite 55)) = Some (sleepConfigs ! 0) \<and>
   gpsPowerEn (sleepConfigs ! 0) \<and>
   map_option sleep_timers (fix_at 70 (gps_init sample_context)) = Some [300000000] \<and>
   map_option GPS_EN_PIN (Option.bind (fix_at 70 (gps_init sample_context)) (fix_at 55))
     = Some LOW \<and>
   map_option sleep_timers (Option.bind (fix_at 70 (gps_init sample_context)) (fix_at 55))
     = Some [300000000]"
  by (simp add: fix_at_70 fix_at_55 modDistance_55 selected_config_5 gps_init_def
      sleepConfigs_def)

section \<open>Properties of the BLE session lifecycle\<close>

lemma ble_step_frame:
  "serverEnable (ble_step s e) = serverEnable s \<and> host_up (ble_step s e) = host_up s \<and>
   bctx (ble_step s e) = bctx s \<and> controller_up (ble_step s e) = controller_up s \<and>
   dispatcher_registered (ble_step s e) = dispatcher_registered s"
  by (cases e) (simp_all add: onConnect_def onDisconnect_def)

lemma ble_step_clientConnected:
  "clientConnected (ble_step s e) = (clientConnected s \<or> (host_up s \<and> e = Connect))"
  by (cases e) (simp_all add: onConnect_def onDisconnect_def)

lemma ble_run_frame:
  "serverEnable (ble_run evs s) = serverEnable s \<and> host_up (ble_run evs s) = host_up s \<and>
   bctx (ble_run evs s) = bctx s \<and> controller_up (ble_run evs s) = controller_up s \<and>
   dispatcher_registered (ble_run evs s) = dispatcher_registered s"
  unfolding ble_run_def by (induction evs arbitrary: s) (simp_all add: ble_step_frame)

lemma ble_run_clientConnected:
  "clientConnected (ble_run evs s) = (clientConnected s \<or> (host_up s \<and> Connect \<in> set evs))"
  unfolding ble_run_def
  by (induction evs arbitrary: s) (auto simp: ble_step_clientConnected ble_step_frame)

lemma at_timeout_fields:
  "bctx (at_timeout c loc col evs c') = c'"
  "serverEnable (at_timeout c loc col evs c')"
  "clientConnected (at_timeout c loc col evs c') = (Connect \<in> set evs)"
  by (simp_all add: at_timeout_def ble_run_frame ble_run_clientConnected ble_server_init_def
      ble_boot_def)

text \<open>
  C4 (as amended). When the idle timer expires with no peer connected: if the model
  requires GPS and the spawn location fails the validity predicate, nothing is torn
  down; otherwise the dispatcher is unregistered and advertising, host and
  controller are shut down exactly when no peer has connected since \<^verbatim>\<open>init\<close>.
  If a peer has connected, also one that has disconnected again, nothing is torn
  down.
\<close>

theorem idle_timeout_outcome:
  "connectedCount (at_timeout c loc col evs c') = 0 \<Longrightarrow>
   deinit_timer_callback (at_timeout c loc col evs c') =
     (if isGPSModel c' \<and> \<not> isValidGPSLocation (spawnLocation c')
      then at_timeout c loc col evs c'
      else if Connect \<in> set evs then at_timeout c loc col evs c'
      else (at_timeout c loc col evs c')
             \<lparr>dispatcher_registered := False, host_up := False, advertising := False,
              controller_up := False, serverEnable := False\<rparr>)"
  by (simp add: deinit_timer_callback_def ble_server_deinit_def at_timeout_fields)

lemma sample_valid: "isValidGPSLocation (spawnLocation sample_context)"
  by (simp add: sample_context_def isValidGPSLocation_def fp_ge_def)

lemma at_timeout_sample:
  "at_timeout sample_context (spawnLocation sample_context) (color sample_context) evs
     sample_context = ble_run evs sample_server"
proof -
  have "bctx (ble_run evs sample_server) = sample_context"
    by (simp add: ble_run_frame sample_server_def ble_server_init_def ble_boot_def)
  then have "(ble_run evs sample_server)\<lparr>bctx := sample_context\<rparr> = ble_run evs sample_server"
    by (cases "ble_run evs sample_server") simp
  then show ?thesis by (simp add: at_timeout_def sample_server_def)
qed

lemma sample_server_fields:
  "bctx sample_server = sample_context" "connectedCount sample_server = 0"
  "serverEnable sample_server" "\<not> clientConnected sample_server" "host_up sample_server"
  "advertising sample_server" "controller_up sample_server" "base_service sample_server"
  "last_update sample_server = 0" "notifications sample_server = []"
  by (simp_all add: sample_server_def ble_server_init_def ble_boot_def)

lemma sample_server_reconnect:
  "ble_run [Connect, Disconnect] sample_server = sample_server\<lparr>clientConnected := True\<rparr>"
  by (simp add: ble_run_def onConnect_def onDisconnect_def sample_server_fields)

text \<open>
  C4 (witness). On the sample context, whose spawn location is valid: with no
  connection before the timer expires everything is torn down; after a connection
  and a disconnection nothing is.
\<close>

theorem idle_timeout_outcome_witness:
  "deinit_timer_callback (ble_run [] sample_server) =
     (ble_run [] sample_server)
       \<lparr>dispatcher_registered := False, host_up := False, advertising := False,
        controller_up := False, serverEnable := False\<rparr> \<and>
   deinit_timer_callback (ble_run [Connect, Disconnect] sample_server) =
     ble_run [Connect, Disconnect] sample_server"
proof -
  have c0: "connectedCount (ble_run [] sample_server) = 0"
    by (simp add: ble_run_def sample_server_fields)
  have c1: "connectedCount (ble_run [Connect, Disconnect] sample_server) = 0"
    by (simp add: sample_server_reconnect sample_server_fields)
  show ?thesis
    using idle_timeout_outcome [of sample_context "spawnLocation sample_context"
        "color sample_context" "[]" sample_context]
      idle_timeout_outcome [of sample_context "spawnLocation sample_context"
        "color sample_context" "[Connect, Disconnect]" sample_context]
    by (simp add: at_timeout_sample c0 c1 sample_valid)
qed

text \<open>
  C4 (counterexample). A peer connects and disconnects before the timer expires; the
  spawn location is valid. With no peer connected the callback changes nothing:
  advertising, host and controller stay up.
\<close>

theorem idle_timeout_after_reconnect_keeps_radio:
  "connectedCount (ble_run [Connect, Disconnect] sample_server) = 0 \<and>
   isValidGPSLocation (spawnLocation (bctx (ble_run [Connect, Disconnect] sample_server))) \<and>
   deinit_timer_callback (ble_run [Connect, Disconnect] sample_server) =
     ble_run [Connect, Disconnect] sample_server \<and>
   advertising (deinit_timer_callback (ble_run [Connect, Disconnect] sample_server)) \<and>
   host_up (deinit_timer_callback (ble_run [Connect, Disconnect] sample_server)) \<and>
   controller_up (deinit_timer_callback (ble_run [Connect, Disconnect] sample_server))"
  by (simp add: sample_server_reconnect sample_valid deinit_timer_callback_def
      ble_server_deinit_def sample_server_fields)

section \<open>Properties of the event dispatcher\<close>

lemma millis_diff: "t1 \<le> t2 \<Longrightarrow> millis t2 - millis t1 = millis (t2 - t1)"
  by (simp add: millis_def)

lemma millis_less_1000: "n < 2 ^ 32 \<Longrightarrow> (millis n < 1000) = (n < 1000)"
  unfolding millis_def
  by (simp add: word_less_nat_alt unat_of_nat take_bit_nat_eq_self)

lemma within_window: "t1 \<le> t2 \<Longrightarrow> t2 - t1 < 1000 \<Longrightarrow> millis t2 - millis t1 < 1000"
  by (simp add: millis_diff millis_less_1000)

lemma outside_window:
  "t1 \<le> t2 \<Longrightarrow> 1000 \<le> t2 - t1 \<Longrightarrow> t2 - t1 < 2 ^ 32 \<Longrightarrow> \<not> millis t2 - millis t1 < 1000"
  by (simp add: millis_diff millis_less_1000)

lemma deliver_dropped: "\<not> accepted d s \<Longrightarrow> deliver d s = s"
  by (simp add: accepted_def deliver_def ble_azimuth_dispatcher_def)

lemma deliver_accepted_last_update:
  "accepted d s \<Longrightarrow> last_update (deliver d s) = millis (d_store d)"
  by (simp add: accepted_def deliver_def ble_azimuth_dispatcher_def Let_def
      split: Event_Type.splits)

lemma deliver_notifications:
  "notifications (deliver d s) =
     (if accepted d s \<and> ev_type (d_event d) = AZIMUTH \<and> 0 < connectedCount s \<and> base_service s
      then notifications s @ [d_azimuth d] else notifications s)"
  by (simp add: accepted_def deliver_def ble_azimuth_dispatcher_def Let_def
      split: Event_Type.splits)

lemma deliver_frame:
  "connectedCount (deliver d s) = connectedCount s \<and> base_service (deliver d s) = base_service s"
  by (simp add: deliver_def ble_azimuth_dispatcher_def Let_def split: Event_Type.splits)

lemma window_drops_all:
  "last_update s = millis t \<Longrightarrow> \<forall>d \<in> set ds. t \<le> d_check d \<and> d_check d - t < 1000 \<Longrightarrow>
   deliver_all ds s = s"
proof (induction ds)
  case Nil
  then show ?case by (simp add: deliver_all_def)
next
  case (Cons d ds)
  then have "\<not> accepted d s"
    by (simp add: accepted_def within_window)
  then have "deliver d s = s" by (rule deliver_dropped)
  with Cons show ?case by (simp add: deliver_all_def)
qed

text \<open>
  C10. The test and the refresh of \<^verbatim>\<open>last_update\<close> come before the event type
  is looked at. So a delivery of any type that passes the test stores its time; if
  it is not an azimuth event it sends no notification; and every delivery whose
  first reading falls less than 1000 ms after the stored time is returned from
  unchanged state, whatever its type: in particular no azimuth event in that window
  sends a notification.
\<close>

theorem rate_limit_window_shared:
  "accepted d s \<Longrightarrow>
   last_update (deliver d s) = millis (d_store d) \<and>
   (ev_type (d_event d) \<noteq> AZIMUTH \<longrightarrow> notifications (deliver d s) = notifications s) \<and>
   (\<forall>ds. (\<forall>d' \<in> set ds. d_store d \<le> d_check d' \<and> d_check d' - d_store d < 1000) \<longrightarrow>
      deliver_all ds (deliver d s) = deliver d s) \<and>
   (\<forall>d'. ev_type (d_event d') = AZIMUTH \<and> d_store d \<le> d_check d' \<and>
         d_check d' - d_store d < 1000 \<longrightarrow>
      \<not> notifies d' (deliver d s))"
proof (intro conjI allI impI)
  assume a: "accepted d s"
  show lu: "last_update (deliver d s) = millis (d_store d)"
    using a by (rule deliver_accepted_last_update)
  show "notifications (deliver d s) = notifications s" if "ev_type (d_event d) \<noteq> AZIMUTH"
    using that by (simp add: deliver_notifications)
  show "deliver_all ds (deliver d s) = deliver d s"
    if "\<forall>d' \<in> set ds. d_store d \<le> d_check d' \<and> d_check d' - d_store d < 1000" for ds
    using lu that by (rule window_drops_all)
  show "\<not> notifies d' (deliver d s)"
    if "ev_type (d_event d') = AZIMUTH \<and> d_store d \<le> d_check d' \<and>
         d_check d' - d_store d < 1000" for d'
  proof -
    from that have "\<not> accepted d' (deliver d s)"
      by (simp add: accepted_def lu within_window)
    then show ?thesis by (simp add: notifies_def deliver_dropped)
  qed
qed


text \<open>
  C9 (as amended). A delivery sends a notification exactly when it is accepted (at
  least 1000 ms on the 32-bit counter since the last accepted delivery of any
  type), its event is an azimuth event, a peer is connected and the base service
  exists. If a delivery is accepted, a delivery less than 1000 ms after it, and
  everything delivered in between, leaves the state as it was: the event is dropped,
  not queued. So of two deliveries less than 1000 ms apart at most one notifies. Two
  azimuth deliveries in a row, the first accepted, the second at least 1000 ms (and
  less than \<open>2 ^ 32\<close> ms) after it, both notify while a peer is connected.
\<close>

theorem azimuth_rate_limit:
  "(notifies d s \<longleftrightarrow>
      accepted d s \<and> ev_type (d_event d) = AZIMUTH \<and> 0 < connectedCount s \<and> base_service s) \<and>
   (accepted d1 s \<and> d_check d1 \<le> d_store d1 \<and> d_store d1 \<le> d_check d2 \<and>
    d_check d2 - d_check d1 < 1000 \<and>
    (\<forall>d \<in> set mids. d_store d1 \<le> d_check d \<and> d_check d \<le> d_check d2) \<longrightarrow>
      deliver d2 (deliver_all mids (deliver d1 s)) = deliver d1 s) \<and>
   (d_check d1 \<le> d_store d1 \<and> d_store d1 \<le> d_check d2 \<and> d_check d2 - d_check d1 < 1000 \<and>
    (\<forall>d \<in> set mids. d_store d1 \<le> d_check d \<and> d_check d \<le> d_check d2) \<longrightarrow>
      \<not> (notifies d1 s \<and> notifies d2 (deliver_all mids (deliver d1 s)))) \<and>
   (accepted d1 s \<and> ev_type (d_event d1) = AZIMUTH \<and> ev_type (d_event d2) = AZIMUTH \<and>
    0 < connectedCount s \<and> base_service s \<and>
    d_store d1 \<le> d_check d2 \<and> 1000 \<le> d_check d2 - d_store d1 \<and>
    d_check d2 - d_store d1 < 2 ^ 32 \<longrightarrow>
      notifications (deliver d2 (deliver d1 s)) = notifications s @ [d_azimuth d1, d_azimuth d2])"
proof (intro conjI impI)
  show "notifies d s \<longleftrightarrow>
      accepted d s \<and> ev_type (d_event d) = AZIMUTH \<and> 0 < connectedCount s \<and> base_service s"
    by (simp add: notifies_def deliver_notifications)
next
  assume h: "accepted d1 s \<and> d_check d1 \<le> d_store d1 \<and> d_store d1 \<le> d_check d2 \<and>
    d_check d2 - d_check d1 < 1000 \<and>
    (\<forall>d \<in> set mids. d_store d1 \<le> d_check d \<and> d_check d \<le> d_check d2)"
  then have lu: "last_update (deliver d1 s) = millis (d_store d1)"
    by (simp add: deliver_accepted_last_update)
  from h have "\<forall>d \<in> set mids. d_store d1 \<le> d_check d \<and> d_check d - d_store d1 < 1000"
    by auto
  with lu have m: "deliver_all mids (deliver d1 s) = deliver d1 s"
    by (rule window_drops_all)
  from h have "d_check d2 - d_store d1 < 1000" by auto
  with h have "\<not> accepted d2 (deliver d1 s)"
    by (simp add: accepted_def lu within_window)
  then show "deliver d2 (deliver_all mids (deliver d1 s)) = deliver d1 s"
    by (simp add: m deliver_dropped)
next
  assume h: "d_check d1 \<le> d_store d1 \<and> d_store d1 \<le> d_check d2 \<and>
    d_check d2 - d_check d1 < 1000 \<and>
    (\<forall>d \<in> set mids. d_store d1 \<le> d_check d \<and> d_check d \<le> d_check d2)"
  show "\<not> (notifies d1 s \<and> notifies d2 (deliver_all mids (deliver d1 s)))"
  proof
    assume n: "notifies d1 s \<and> notifies d2 (deliver_all mids (deliver d1 s))"
    then have a: "accepted d1 s" by (simp add: notifies_def deliver_notifications split: if_splits)
    then have lu: "last_update (deliver d1 s) = millis (d_store d1)"
      by (simp add: deliver_accepted_last_update)
    from h have "\<forall>d \<in> set mids. d_store d1 \<le> d_check d \<and> d_check d - d_store d1 < 1000"
      by auto
    with lu have m: "deliver_all mids (deliver d1 s) = deliver d1 s"
      by (rule window_drops_all)
    from h have "d_check d2 - d_store d1 < 1000" by auto
    with h have "\<not> accepted d2 (deliver d1 s)"
      by (simp add: accepted_def lu within_window)
    then have "\<not> notifies d2 (deliver d1 s)" by (simp add: notifies_def deliver_dropped)
    with n m show False by simp
  qed
next
  assume h: "accepted d1 s \<and> ev_type (d_event d1) = AZIMUTH \<and> ev_type (d_event d2) = AZIMUTH \<and>
    0 < connectedCount s \<and> base_service s \<and>
    d_store d1 \<le> d_check d2 \<and> 1000 \<le> d_check d2 - d_store d1 \<and>
    d_check d2 - d_store d1 < 2 ^ 32"
  then have lu: "last_update (deliver d1 s) = millis (d_store d1)"
    by (simp add: deliver_accepted_last_update)
  from h have "accepted d2 (deliver d1 s)"
    by (simp add: accepted_def lu outside_window)
  with h show "notifications (deliver d2 (deliver d1 s)) =
      notifications s @ [d_azimuth d1, d_azimuth d2]"
    by (simp add: deliver_notifications deliver_frame)
qed

lemma connected_fields:
  "connectedCount (ble_run [Connect] sample_server) = 1"
  "base_service (ble_run [Connect] sample_server)"
  "last_update (ble_run [Connect] sample_server) = 0"
  "notifications (ble_run [Connect] sample_server) = []"
  by (simp_all add: ble_run_def onConnect_def sample_server_fields)

lemma accepted_5000: "accepted (azimuth_at 5000 a) (ble_run [Connect] sample_server)"
  by (simp add: accepted_def azimuth_at_def connected_fields millis_def)

text \<open>
  C9 (counterexample). A peer is connected. Azimuth events are delivered at 5000 ms
  and at 6500 ms, a calibration request at 6000 ms. The request is accepted and
  restarts the window, so the second azimuth event, 1500 ms after the first, sends
  no notification.
\<close>

theorem azimuth_between_window_counterexample:
  "connectedCount (ble_run [Connect] sample_server) = 1 \<and>
   notifications (deliver (azimuth_at 5000 90) (ble_run [Connect] sample_server)) = [90] \<and>
   notifications
     (deliver (azimuth_at 6500 91)
       (deliver (calibrate_at 6000)
         (deliver (azimuth_at 5000 90) (ble_run [Connect] sample_server)))) = [90]"
  by (simp add: deliver_def ble_azimuth_dispatcher_def azimuth_at_def calibrate_at_def
      connected_fields millis_def Let_def)

lemma azimuth_at_fields:
  "d_check (azimuth_at t a) = t" "d_store (azimuth_at t a) = t" "d_azimuth (azimuth_at t a) = a"
  "ev_type (d_event (azimuth_at t a)) = AZIMUTH"
  by (simp_all add: azimuth_at_def)

text \<open>
  C9 (witness). A peer is connected. An azimuth event at 5000 ms notifies; one at
  5100 ms is dropped and leaves the state as it was; one at 6500 ms, with nothing
  delivered in between, notifies as well.
\<close>

theorem azimuth_rate_limit_witness:
  "notifies (azimuth_at 5000 90) (ble_run [Connect] sample_server) \<and>
   deliver (azimuth_at 5100 91)
     (deliver_all [] (deliver (azimuth_at 5000 90) (ble_run [Connect] sample_server))) =
     deliver (azimuth_at 5000 90) (ble_run [Connect] sample_server) \<and>
   \<not> notifies (azimuth_at 5100 91)
       (deliver_all [] (deliver (azimuth_at 5000 90) (ble_run [Connect] sample_server))) \<and>
   notifications
     (deliver (azimuth_at 6500 91) (deliver (azimuth_at 5000 90) (ble_run [Connect] sample_server)))
     = [90, 91]"
proof -
  let ?s = "ble_run [Connect] sample_server"
  have a: "accepted (azimuth_at 5000 90) ?s" by (rule accepted_5000)
  note t1 = azimuth_rate_limit
      [of "azimuth_at 5000 90" ?s "azimuth_at 5000 90" "azimuth_at 5100 91" "[]"]
  note t2 = azimuth_rate_limit
      [of "azimuth_at 5000 90" ?s "azimuth_at 5000 90" "azimuth_at 6500 91" "[]"]
  have c1: "notifies (azimuth_at 5000 90) ?s"
    using t1 a by (simp add: azimuth_at_fields connected_fields)
  have c2: "deliver (azimuth_at 5100 91) (deliver_all [] (deliver (azimuth_at 5000 90) ?s)) =
      deliver (azimuth_at 5000 90) ?s"
    using t1 a by (simp add: azimuth_at_fields)
  have c3: "\<not> notifies (azimuth_at 5100 91) (deliver_all [] (deliver (azimuth_at 5000 90) ?s))"
    using t1 c1 by (simp add: azimuth_at_fields)
  have c4: "notifications (deliver (azimuth_at 6500 91) (deliver (azimuth_at 5000 90) ?s))
      = [90, 91]"
    using t2 a by (simp add: azimuth_at_fields connected_fields)
  from c1 c2 c3 c4 show ?thesis by simp
qed


lemma calibrate_at_fields:
  "d_check (calibrate_at t) = t" "d_store (calibrate_at t) = t"
  "ev_type (d_event (calibrate_at t)) = SENSOR_CALIBRATE"
  by (simp_all add: calibrate_at_def)

text \<open>
  C10 (witness). A peer is connected. A calibration request at 6000 ms is accepted,
  stores its time and sends nothing; azimuth events at 6500 ms and 6900 ms are
  dropped.
\<close>

theorem rate_limit_window_shared_witness:
  "accepted (calibrate_at 6000) (ble_run [Connect] sample_server) \<and>
   last_update (deliver (calibrate_at 6000) (ble_run [Connect] sample_server)) = millis 6000 \<and>
   notifications (deliver (calibrate_at 6000) (ble_run [Connect] sample_server)) = [] \<and>
   deliver_all [azimuth_at 6500 91, azimuth_at 6900 92]
     (deliver (calibrate_at 6000) (ble_run [Connect] sample_server)) =
     deliver (calibrate_at 6000) (ble_run [Connect] sample_server) \<and>
   \<not> notifies (azimuth_at 6500 91) (deliver (calibrate_at 6000) (ble_run [Connect] sample_server))"
proof -
  let ?s = "ble_run [Connect] sample_server"
  have a: "accepted (calibrate_at 6000) ?s"
    by (simp add: accepted_def calibrate_at_fields connected_fields millis_def)
  note t = rate_limit_window_shared [OF a]
  have c1: "last_update (deliver (calibrate_at 6000) ?s) = millis 6000"
    using t by (simp add: calibrate_at_fields)
  have c2: "notifications (deliver (calibrate_at 6000) ?s) = []"
    using t by (simp add: calibrate_at_fields connected_fields)
  have "\<forall>d' \<in> set [azimuth_at 6500 91, azimuth_at 6900 92].
      d_store (calibrate_at 6000) \<le> d_check d' \<and> d_check d' - d_store (calibrate_at 6000) < 1000"
    by (simp add: calibrate_at_fields azimuth_at_fields)
  with t have c3: "deliver_all [azimuth_at 6500 91, azimuth_at 6900 92]
      (deliver (calibrate_at 6000) ?s) = deliver (calibrate_at 6000) ?s"
    by blast
  have "ev_type (d_event (azimuth_at 6500 91)) = AZIMUTH \<and>
      d_store (calibrate_at 6000) \<le> d_check (azimuth_at 6500 91) \<and>
      d_check (azimuth_at 6500 91) - d_store (calibrate_at 6000) < 1000"
    by (simp add: calibrate_at_fields azimuth_at_fields)
  with t have c4: "\<not> notifies (azimuth_at 6500 91) (deliver (calibrate_at 6000) ?s)"
    by blast
  from a c1 c2 c3 c4 show ?thesis by simp
qed

section \<open>Properties of the characteristic writes\<close>

lemma strtol16_ab: "strtol16 ''ab'' = (0xAB, 2)"
  by (simp add: strtol16_def isspace_def is_hex_def hex_digit_def Let_def)

lemma strtol16_cd: "strtol16 ''cd'' = (0xCD, 2)"
  by (simp add: strtol16_def isspace_def is_hex_def hex_digit_def Let_def)

lemma strtol16_a: "strtol16 ''a'' = (0xA, 1)"
  by (simp add: strtol16_def isspace_def is_hex_def hex_digit_def Let_def)

lemma strtol16_zz: "strtol16 ''zz'' = (0, 0)"
  by (simp add: strtol16_def isspace_def is_hex_def hex_digit_def Let_def)

text \<open>
  C5 (evaluation at the failing input). For the single token \<^verbatim>\<open>ab\<close>,
  \<^verbatim>\<open>strtol\<close> consumes two characters, the test \<^verbatim>\<open>endptr == str + 1\<close> fails and
  the south colour is not assigned: the colour saved is the context's previous
  colour, and the context is not written at all.
\<close>

theorem color_write_ab_keeps_south:
  "onWrite_color [''ab''] s = s\<lparr>saved_pointerColor := color (bctx s)\<rparr> \<and>
   southColor (saved_pointerColor (onWrite_color [''ab''] s)) = southColor (color (bctx s)) \<and>
   southColor (color (bctx (onWrite_color [''ab''] s))) = southColor (color (bctx s))"
  by (simp add: onWrite_color_def strtol16_ab Let_def)

text \<open>
  A single token of one digit passes the test (and is saved, though not written to
  the context); with two tokens both colours are parsed with the test
  \<^verbatim>\<open>endptr == str\<close> and written to both places.
\<close>

lemma color_write_a:
  "onWrite_color [''a''] s = s\<lparr>saved_pointerColor := (color (bctx s))\<lparr>southColor := 0xA\<rparr>\<rparr>"
  by (simp add: onWrite_color_def strtol16_a Let_def)

lemma color_write_ab_cd:
  "onWrite_color [''ab'', ''cd''] s =
     s\<lparr>saved_pointerColor := (color (bctx s))\<lparr>southColor := 0xAB, spawnColor := 0xCD\<rparr>,
       bctx := (bctx s)\<lparr>color := (color (bctx s))\<lparr>southColor := 0xAB, spawnColor := 0xCD\<rparr>\<rparr>\<rparr>"
  by (simp add: onWrite_color_def strtol16_ab strtol16_cd Let_def)

lemma color_write_zz_cd:
  "onWrite_color [''zz'', ''cd''] s =
     s\<lparr>saved_pointerColor := (color (bctx s))\<lparr>spawnColor := 0xCD\<rparr>,
       bctx := (bctx s)\<lparr>color := (color (bctx s))\<lparr>spawnColor := 0xCD\<rparr>\<rparr>\<rparr>"
  by (simp add: onWrite_color_def strtol16_zz strtol16_cd Let_def)

lemma find_char_Some:
  "find_char c v = Some i \<longleftrightarrow> i < length v \<and> v ! i = c \<and> c \<notin> set (take i v)"
proof (induction v arbitrary: i)
  case Nil
  then show ?case by simp
next
  case (Cons x xs)
  show ?case
  proof (cases "x = c")
    case True
    then show ?thesis by (cases i) auto
  next
    case False
    then show ?thesis using Cons.IH by (cases i) auto
  qed
qed

lemma find_char_None: "find_char c v = None \<longleftrightarrow> c \<notin> set v"
  by (induction v) auto

text \<open>
  C8. When the payload has a comma and \<^verbatim>\<open>std::stof\<close> returns a value for the
  text before the first comma and for the text after it, the saved spawn location
  and the context's spawn location both become that latitude and longitude. When
  the payload has no comma, or \<^verbatim>\<open>std::stof\<close> throws for either text, the write
  changes nothing.
\<close>

theorem onWrite_spawn_all_or_nothing:
  "(find_char (CHR '','') v = Some i \<and> stof (take i v) = Inr lat \<and>
      stof (drop (Suc i) v) = Inr lon \<longrightarrow>
    onWrite_spawn stof v s =
      s\<lparr>saved_spawnLocation := \<lparr>latitude = lat, longitude = lon\<rparr>,
        bctx := (bctx s)\<lparr>spawnLocation := \<lparr>latitude = lat, longitude = lon\<rparr>\<rparr>\<rparr>) \<and>
   (find_char (CHR '','') v = None \<or>
      (\<exists>j e. find_char (CHR '','') v = Some j \<and>
          (stof (take j v) = Inl e \<or> stof (drop (Suc j) v) = Inl e)) \<longrightarrow>
    onWrite_spawn stof v s = s)"
  by (auto simp: onWrite_spawn_def Let_def split: option.splits sum.splits)

text \<open>
  C8 (witness). The payload \<^verbatim>\<open>12.345,67.890\<close> is split into \<^verbatim>\<open>12.345\<close> and
  \<^verbatim>\<open>67.890\<close> and both stores take the two values; \<^verbatim>\<open>not,a,number\<close> is split
  into \<^verbatim>\<open>not\<close> and \<^verbatim>\<open>a,number\<close> and changes nothing, like a payload without a
  comma or with one bad half.
\<close>

theorem onWrite_spawn_all_or_nothing_witness:
  "onWrite_spawn sample_stof ''12.345,67.890'' sample_server =
     sample_server
       \<lparr>saved_spawnLocation :=
          \<lparr>latitude = double_to_float (Finite 12.345),
           longitude = double_to_float (Finite 67.890)\<rparr>,
        bctx := (bctx sample_server)
          \<lparr>spawnLocation :=
             \<lparr>latitude = double_to_float (Finite 12.345),
              longitude = double_to_float (Finite 67.890)\<rparr>\<rparr>\<rparr> \<and>
   onWrite_spawn sample_stof ''not,a,number'' sample_server = sample_server \<and>
   onWrite_spawn sample_stof ''12.345'' sample_server = sample_server \<and>
   onWrite_spawn sample_stof ''12.345,abc'' sample_server = sample_server"
proof -
  have f1: "find_char (CHR '','') ''12.345,67.890'' = Some 6"
    and f2: "find_char (CHR '','') ''not,a,number'' = Some 3"
    and f3: "find_char (CHR '','') ''12.345'' = None"
    and f4: "find_char (CHR '','') ''12.345,abc'' = Some 6"
    by simp_all
  have c1: "onWrite_spawn sample_stof ''12.345,67.890'' sample_server =
     sample_server
       \<lparr>saved_spawnLocation :=
          \<lparr>latitude = double_to_float (Finite 12.345),
           longitude = double_to_float (Finite 67.890)\<rparr>,
        bctx := (bctx sample_server)
          \<lparr>spawnLocation :=
             \<lparr>latitude = double_to_float (Finite 12.345),
              longitude = double_to_float (Finite 67.890)\<rparr>\<rparr>\<rparr>"
    using onWrite_spawn_all_or_nothing [of "''12.345,67.890''" 6 sample_stof
        "double_to_float (Finite 12.345)" "double_to_float (Finite 67.890)" sample_server]
    by (simp add: f1 sample_stof_def)
  have c2: "onWrite_spawn sample_stof ''not,a,number'' sample_server = sample_server"
    using onWrite_spawn_all_or_nothing [of "''not,a,number''" 3 sample_stof NaN NaN sample_server]
    by (simp add: f2 sample_stof_def)
  have c3: "onWrite_spawn sample_stof ''12.345'' sample_server = sample_server"
    using onWrite_spawn_all_or_nothing [of "''12.345''" 0 sample_stof NaN NaN sample_server]
    by (simp add: f3)
  have c4: "onWrite_spawn sample_stof ''12.345,abc'' sample_server = sample_server"
    using onWrite_spawn_all_or_nothing [of "''12.345,abc''" 6 sample_stof NaN NaN sample_server]
    by (simp add: f4 sample_stof_def)
  from c1 c2 c3 c4 show ?thesis by simp
qed

end
